theory Spec2Isabelle
  imports Main "HOL-Library.Word"
begin

section \<open>The HTTPS sanity check \<open>try_https.py\<close>\<close>

text \<open>
  The program is the module-level code of
  \<open>src-tauri/python_scripts/sanity_check/try_https.py\<close>:
  \<^verbatim>\<open>
  import urllib.request

  url = 'https://dl.espressif.com/'
  response = urllib.request.urlopen(url)

  if response.getcode() == 200:
      print("Request successful!")
      print("Response content:", response.read())
  else:
      print("Request failed. Status code:", response.getcode())
      exit(1)
  \<close>
  Everything the script does beyond computing values is made explicit: what it writes to
  standard output, the requests it hands to the HTTP client, the calls of \<open>read\<close> on the
  response, and the exception (if any) that ends it.
\<close>

subsection \<open>Data\<close>

text \<open>A Python \<open>bytes\<close> object is a sequence of 8-bit values; text is a \<open>string\<close>.\<close>

type_synonym byte = "8 word"

datatype http_method = GET | POST

record request =
  req_method :: http_method
  req_url :: string

text \<open>
  The response handle as the script uses it: \<open>getcode()\<close> gives the integer status code
  and \<open>read()\<close> the payload.
\<close>

record response =
  code :: int
  payload :: "byte list"

datatype transport_failure = DNSFailure | TLSFailure | ConnectionRefused | Timeout

text \<open>
  The exceptions that can end the script: the two that \<open>urllib.request.urlopen\<close> raises
  (\<open>URLError\<close> when no response is obtained, \<open>HTTPError\<close> carrying the status code) and the
  \<open>SystemExit\<close> that the builtin \<open>exit\<close> raises.
\<close>

datatype exn = URLError transport_failure | HTTPError int | SystemExit int

text \<open>
  What the remote end does with a request: it gives no response at all, or it answers with
  a status code and a body.
\<close>

datatype reply = NoResponse transport_failure | Reply int "byte list"

text \<open>
  The surroundings of one execution: the command line, the environment variables, the
  files on disk, and the network.
\<close>

record world =
  argv :: "string list"
  environ :: "string \<rightharpoonup> string"
  files :: "string \<rightharpoonup> string"
  network :: "request \<Rightarrow> reply"

text \<open>The effects of the running process, in the order they happen.\<close>

record proc =
  stdout :: "string list"
  requests :: "request list"
  reads :: nat

definition proc0 :: proc where
  "proc0 = \<lparr>stdout = [], requests = [], reads = 0\<rparr>"

subsection \<open>The Python runtime: \<open>str\<close> of an integer, \<open>repr\<close> of bytes, \<open>print\<close>, \<open>exit\<close>\<close>

definition digit :: "nat \<Rightarrow> char" where
  "digit n = char_of (48 + n)"

function str_nat :: "nat \<Rightarrow> string" where
  "str_nat n = (if n < 10 then [digit n] else str_nat (n div 10) @ [digit (n mod 10)])"
  by pat_completeness auto
termination
  by (relation "measure id") auto

declare str_nat.simps [simp del]

text \<open>\<open>str(i)\<close> for a Python integer: decimal digits, with a minus sign when negative.\<close>

definition str_int :: "int \<Rightarrow> string" where
  "str_int i = (if i < 0 then CHR ''-'' # str_nat (nat (- i)) else str_nat (nat i))"

text \<open>
  \<open>repr\<close> of a \<open>bytes\<close> object, as CPython's \<open>PyBytes_Repr\<close> computes it: the letter \<open>b\<close>,
  an opening quote, every byte rendered, a closing quote. The quote is the double quote
  exactly when the bytes hold a single quote and no double quote. The quote character and
  the backslash are escaped with a backslash, tab, newline and carriage return are written
  \<open>\t\<close>, \<open>\n\<close>, \<open>\r\<close>, any other byte below \<open>0x20\<close> or from \<open>0x7f\<close> on is written
  \<open>\xhh\<close> with two lower-case hexadecimal digits, and every other byte is written as the
  ASCII character it encodes.
\<close>

definition hexdigit :: "nat \<Rightarrow> char" where
  "hexdigit n = ''0123456789abcdef'' ! n"

definition backslash :: char where
  "backslash = CHR 0x5C"

definition bytes_quote :: "byte list \<Rightarrow> char" where
  "bytes_quote s = (if 0x27 \<in> set s \<and> 0x22 \<notin> set s then CHR 0x22 else CHR 0x27)"

definition repr_byte :: "char \<Rightarrow> byte \<Rightarrow> string" where
  "repr_byte quote c =
     (let n = unat c in
      if char_of n = quote \<or> n = 0x5C then [backslash, char_of n]
      else if n = 0x09 then [backslash, CHR ''t'']
      else if n = 0x0A then [backslash, CHR ''n'']
      else if n = 0x0D then [backslash, CHR ''r'']
      else if n < 0x20 \<or> 0x7F \<le> n then
        [backslash, CHR ''x'', hexdigit (n div 16), hexdigit (n mod 16)]
      else [char_of n])"

definition bytes_repr :: "byte list \<Rightarrow> string" where
  "bytes_repr s =
     (let quote = bytes_quote s
      in CHR ''b'' # quote # concat (map (repr_byte quote) s) @ [quote])"

text \<open>
  \<open>print(a, b, ...)\<close> writes its arguments, each already converted with \<open>str\<close>, separated
  by single spaces and ended by a newline: one more line on standard output.
\<close>

fun join_space :: "string list \<Rightarrow> string" where
  "join_space [] = []"
| "join_space [a] = a"
| "join_space (a # b # rest) = a @ '' '' @ join_space (b # rest)"

definition print :: "string list \<Rightarrow> proc \<Rightarrow> proc" where
  "print args s = s\<lparr>stdout := stdout s @ [join_space args]\<rparr>"

text \<open>\<open>exit(n)\<close> raises \<open>SystemExit(n)\<close>.\<close>

definition exit :: "int \<Rightarrow> proc \<Rightarrow> (exn + unit) \<times> proc" where
  "exit n s = (Inl (SystemExit n), s)"

subsection \<open>The HTTP client: \<open>urllib.request.urlopen\<close>, \<open>getcode\<close>, \<open>read\<close>\<close>

text \<open>
  \<open>urllib.request.urlopen\<close> belongs to the Python standard library, not to the repository;
  this is its documented behaviour for a URL given as a string and no data. It sends a GET
  request. When the transport fails and no response is obtained it raises \<open>URLError\<close>. A
  response passes through \<open>HTTPErrorProcessor\<close>, which hands it back only when
  \<open>200 <= code < 300\<close> and otherwise lets the default handler raise \<open>HTTPError\<close> with
  the code. The reply meant here is the one the client ends with: redirects are followed
  inside the library and are not part of the model.
\<close>

definition urlopen :: "world \<Rightarrow> string \<Rightarrow> proc \<Rightarrow> (exn + response) \<times> proc" where
  "urlopen w u s =
     (let req = \<lparr>req_method = GET, req_url = u\<rparr>;
          s' = s\<lparr>requests := requests s @ [req]\<rparr>
      in case network w req of
           NoResponse f \<Rightarrow> (Inl (URLError f), s')
         | Reply c b \<Rightarrow>
             if 200 \<le> c \<and> c < 300 then (Inr \<lparr>code = c, payload = b\<rparr>, s')
             else (Inl (HTTPError c), s'))"

definition getcode :: "response \<Rightarrow> int" where
  "getcode r = code r"

definition read :: "response \<Rightarrow> proc \<Rightarrow> byte list \<times> proc" where
  "read r s = (payload r, s\<lparr>reads := reads s + 1\<rparr>)"

subsection \<open>The script\<close>

definition url :: string where
  "url = ''https://dl.espressif.com/''"

text \<open>
  The module body, statement by statement. An exception raised by \<open>urlopen\<close> is not caught
  and ends the script there.
\<close>

definition try_https :: "world \<Rightarrow> proc \<Rightarrow> (exn + unit) \<times> proc" where
  "try_https w s0 =
     (case urlopen w url s0 of
        (Inl e, s1) \<Rightarrow> (Inl e, s1)
      | (Inr response, s1) \<Rightarrow>
          if getcode response = 200 then
            (let s2 = print [''Request successful!''] s1;
                 (content, s3) = read response s2;
                 s4 = print [''Response content:'', bytes_repr content] s3
             in (Inr (), s4))
          else
            (let s2 = print [''Request failed. Status code:'', str_int (getcode response)] s1
             in exit 1 s2))"

text \<open>
  The interpreter running the script as a process. Falling off the end gives exit status
  \<open>0\<close>; \<open>SystemExit(n)\<close> gives exit status \<open>n\<close> and prints nothing; any other uncaught
  exception is reported as a traceback on standard error and gives exit status \<open>1\<close>.
\<close>

record outcome =
  out :: "string list"
  traceback :: "exn option"
  exit_status :: int
  sent :: "request list"
  body_reads :: nat

definition python :: "world \<Rightarrow> outcome" where
  "python w =
     (case try_https w proc0 of
        (Inr u, s) \<Rightarrow>
          \<lparr>out = stdout s, traceback = None, exit_status = 0,
           sent = requests s, body_reads = reads s\<rparr>
      | (Inl (SystemExit n), s) \<Rightarrow>
          \<lparr>out = stdout s, traceback = None, exit_status = n,
           sent = requests s, body_reads = reads s\<rparr>
      | (Inl e, s) \<Rightarrow>
          \<lparr>out = stdout s, traceback = Some e, exit_status = 1,
           sent = requests s, body_reads = reads s\<rparr>)"

text \<open>The one request of the script, and worlds whose network answers it in a fixed way.\<close>

definition probe :: request where
  "probe = \<lparr>req_method = GET, req_url = url\<rparr>"

definition answering :: "reply \<Rightarrow> world" where
  "answering r = \<lparr>argv = [], environ = Map.empty, files = Map.empty, network = (\<lambda>q. r)\<rparr>"



subsection \<open>What one execution does, by the answer of the network\<close>

text \<open>The definitions that make up one execution, to be unfolded together.\<close>

lemmas script_defs =
  python_def try_https_def urlopen_def getcode_def read_def print_def exit_def
  proc0_def probe_def Let_def

lemma python_no_response:
  assumes "network w probe = NoResponse f"
  shows "python w =
    \<lparr>out = [], traceback = Some (URLError f), exit_status = 1,
     sent = [probe], body_reads = 0\<rparr>"
  using assms by (simp add: script_defs)

lemma python_http_error:
  assumes "network w probe = Reply c b" and "\<not> (200 \<le> c \<and> c < 300)"
  shows "python w =
    \<lparr>out = [], traceback = Some (HTTPError c), exit_status = 1,
     sent = [probe], body_reads = 0\<rparr>"
  using assms by (auto simp: script_defs)

lemma python_status_200:
  assumes "network w probe = Reply 200 b"
  shows "python w =
    \<lparr>out = [''Request successful!'', ''Response content: '' @ bytes_repr b],
     traceback = None, exit_status = 0, sent = [probe], body_reads = 1\<rparr>"
  using assms by (simp add: script_defs)

lemma python_other_2xx:
  assumes "network w probe = Reply c b" and "200 \<le> c" and "c < 300" and "c \<noteq> 200"
  shows "python w =
    \<lparr>out = [''Request failed. Status code: '' @ str_int c],
     traceback = None, exit_status = 1, sent = [probe], body_reads = 0\<rparr>"
  using assms by (simp add: script_defs)

lemma try_https_status_200:
  assumes "network w probe = Reply 200 b"
  shows "fst (try_https w proc0) = Inr ()"
  using assms by (simp add: script_defs)

lemma try_https_other_2xx:
  assumes "network w probe = Reply c b" and "200 \<le> c" and "c < 300" and "c \<noteq> 200"
  shows "fst (try_https w proc0) = Inl (SystemExit 1)"
  using assms by (simp add: script_defs)

lemma try_https_http_error:
  assumes "network w probe = Reply c b" and "\<not> (200 \<le> c \<and> c < 300)"
  shows "fst (try_https w proc0) = Inl (HTTPError c)"
  using assms by (auto simp: script_defs)

lemma try_https_no_response:
  assumes "network w probe = NoResponse f"
  shows "fst (try_https w proc0) = Inl (URLError f)"
  using assms by (simp add: script_defs)

text \<open>\<open>urlopen\<close> hands back a response exactly for a reply with a 2xx status code.\<close>

lemma urlopen_returns:
  assumes "fst (urlopen w url proc0) = Inr r"
  shows "network w probe = Reply (code r) (payload r) \<and> 200 \<le> code r \<and> code r < 300"
  using assms
  by (cases "network w probe")
     (auto simp: urlopen_def probe_def Let_def split: if_splits)

lemma urlopen_2xx:
  assumes "network w probe = Reply c b" and "200 \<le> c" and "c < 300"
  shows "fst (urlopen w url proc0) = Inr \<lparr>code = c, payload = b\<rparr>"
  using assms by (simp add: urlopen_def probe_def Let_def)

lemma network_answering [simp]: "network (answering r) q = r"
  by (simp add: answering_def)



lemma str_nat_digits [simp]:
  "n < 10 \<Longrightarrow> str_nat n = [digit n]"
  "10 \<le> n \<Longrightarrow> str_nat n = str_nat (n div 10) @ [digit (n mod 10)]"
  by (simp_all add: str_nat.simps)

lemma digit_chars [simp]:
  "digit 0 = CHR ''0''" "digit 1 = CHR ''1''" "digit 2 = CHR ''2''" "digit 3 = CHR ''3''"
  "digit 4 = CHR ''4''" "digit 5 = CHR ''5''" "digit 6 = CHR ''6''" "digit 7 = CHR ''7''"
  "digit 8 = CHR ''8''" "digit 9 = CHR ''9''" "digit (Suc 0) = CHR ''1''"
  by (simp_all add: digit_def char_of_def bit_Suc_0_iff)



lemma failure_line_not_marker [simp]:
  "''Request failed. Status code: '' @ t \<noteq> ''Request successful!''"
  "''Request failed. Status code: '' @ t \<noteq> ''Response content: '' @ t'"
  by simp_all





subsection \<open>Status 200\<close>



subsection \<open>A response with another status\<close>




subsection \<open>The comparison with 200 is an equality\<close>



subsection \<open>Status 404 and status 500\<close>

text \<open>
  Claim C4 says that for an endpoint answering 404, and likewise 500, the program prints
  the failure marker with the code and exits with 1. The script does not get that far:
  \<open>urlopen\<close> raises \<open>HTTPError\<close> for both codes, the script does not catch it, and the
  \<open>else\<close> branch that prints the marker is never entered. Nothing is written to standard
  output; the process ends with the traceback of the exception and exit status 1.
\<close>

theorem status_404_500_end_in_http_error:
  "out (python (answering (Reply 404 []))) = []
 \<and> traceback (python (answering (Reply 404 []))) = Some (HTTPError 404)
 \<and> exit_status (python (answering (Reply 404 []))) = 1
 \<and> out (python (answering (Reply 500 []))) = []
 \<and> traceback (python (answering (Reply 500 []))) = Some (HTTPError 500)
 \<and> exit_status (python (answering (Reply 500 []))) = 1"
  by (simp add: script_defs)

subsection \<open>No response at all\<close>

text \<open>
  Claim C5. When the transport fails (name resolution, TLS handshake, refused connection or
  timeout) and no response is obtained, the process does not end with exit status 0: the
  \<open>URLError\<close> is not caught, nothing is printed, and the exit status is 1.
\<close>

theorem transport_failure_exit_nonzero:
  assumes "network w probe = NoResponse f"
  shows "exit_status (python w) \<noteq> 0
       \<and> exit_status (python w) = 1
       \<and> traceback (python w) = Some (URLError f)
       \<and> out (python w) = []"
  by (simp add: python_no_response [OF assms])

theorem transport_failure_exit_nonzero_witness:
  "network (answering (NoResponse ConnectionRefused)) probe = NoResponse ConnectionRefused
 \<and> exit_status (python (answering (NoResponse ConnectionRefused))) \<noteq> 0
 \<and> traceback (python (answering (NoResponse ConnectionRefused)))
      = Some (URLError ConnectionRefused)"
proof -
  have h: "network (answering (NoResponse ConnectionRefused)) probe
             = NoResponse ConnectionRefused" by simp
  from transport_failure_exit_nonzero [OF h] h show ?thesis by simp
qed


subsection \<open>Nothing but the response matters\<close>



subsection \<open>One request, no retry\<close>




subsection \<open>Where the failure branch can be reached\<close>

text \<open>
  Claim C8. The \<open>else\<close> branch, which prints the failure marker with the status code and
  calls \<open>exit(1)\<close>, is entered only for a reply whose status code lies in 200..299 and is
  not 200. For any status outside 200..299 \<open>urlopen\<close> raises \<open>HTTPError\<close> before
  \<open>getcode()\<close> is reached, so a 3xx, 4xx or 5xx reply ends the process on the uncaught
  exception and the failure marker is not printed.
\<close>

theorem failure_branch_only_for_other_2xx:
  "(fst (try_https w proc0) = Inl (SystemExit 1))
     = (\<exists>c b. network w probe = Reply c b \<and> 200 \<le> c \<and> c < 300 \<and> c \<noteq> 200)
 \<and> (network w probe = Reply c b \<longrightarrow>
       ((''Request failed. Status code: '' @ str_int c) \<in> set (out (python w)))
         = (200 \<le> c \<and> c < 300 \<and> c \<noteq> 200))
 \<and> (network w probe = Reply c b \<and> 300 \<le> c \<and> c < 600 \<longrightarrow>
       fst (try_https w proc0) = Inl (HTTPError c)
     \<and> traceback (python w) = Some (HTTPError c)
     \<and> out (python w) = [])"
proof (cases "network w probe")
  case (NoResponse f)
  then show ?thesis by (simp add: try_https_no_response [OF NoResponse])
next
  case (Reply c' b')
  show ?thesis
  proof (cases "200 \<le> c' \<and> c' < 300")
    case False
    from try_https_http_error [OF Reply False] python_http_error [OF Reply False]
    show ?thesis using Reply False by auto
  next
    case True
    then have lo: "200 \<le> c'" and hi: "c' < 300" by simp_all
    show ?thesis
    proof (cases "c' = 200")
      case c200: True
      from Reply c200 have net: "network w probe = Reply 200 b'" by simp
      from try_https_status_200 [OF net] python_status_200 [OF net]
      show ?thesis using Reply c200 by auto
    next
      case other: False
      from try_https_other_2xx [OF Reply lo hi other] python_other_2xx [OF Reply lo hi other]
      show ?thesis using Reply lo hi other by auto
    qed
  qed
qed

theorem failure_branch_only_for_other_2xx_witness:
  "network (answering (Reply 302 [])) probe = Reply 302 []
 \<and> fst (try_https (answering (Reply 302 [])) proc0) \<noteq> Inl (SystemExit 1)
 \<and> traceback (python (answering (Reply 302 []))) = Some (HTTPError 302)
 \<and> out (python (answering (Reply 302 []))) = []"
proof -
  have h: "network (answering (Reply 302 [])) probe = Reply 302 []" by simp
  from failure_branch_only_for_other_2xx [of "answering (Reply 302 [])" 302 "[]"] h
  show ?thesis by simp
qed

subsection \<open>How the body is printed\<close>



subsection \<open>The failure branch leaves the body alone\<close>

text \<open>
  Claim C10. The body is read only on the success path: for a response that is returned,
  \<open>read\<close> is called exactly when the status code is 200. In the failure branch nothing
  is read, the only line printed is the failure message with the status code, and the
  outcome is the same whatever the body is: of the response, only the status code shows.
\<close>

theorem failure_branch_ignores_body:
  assumes "fst (urlopen w url proc0) = Inr r"
  shows "(0 < body_reads (python w)) = (code r = 200)
       \<and> (code r \<noteq> 200 \<longrightarrow>
            body_reads (python w) = 0
          \<and> out (python w) = [''Request failed. Status code: '' @ str_int (code r)]
          \<and> python (w\<lparr>network := \<lambda>q. Reply (code r) b'\<rparr>) = python w)"
proof (cases "code r = 200")
  case True
  with urlopen_returns [OF assms]
  have net: "network w probe = Reply 200 (payload r)" by simp
  show ?thesis using True by (simp add: python_status_200 [OF net])
next
  case False
  from urlopen_returns [OF assms]
  have net: "network w probe = Reply (code r) (payload r)"
    and lo: "200 \<le> code r" and hi: "code r < 300" by simp_all
  have net': "network (w\<lparr>network := \<lambda>q. Reply (code r) b'\<rparr>) probe = Reply (code r) b'"
    by simp
  show ?thesis using False
    by (simp add: python_other_2xx [OF net lo hi False]
                  python_other_2xx [OF net' lo hi False])
qed

theorem failure_branch_ignores_body_witness:
  "fst (urlopen (answering (Reply 204 [0x4F, 0x4B])) url proc0)
     = Inr \<lparr>code = 204, payload = [0x4F, 0x4B]\<rparr>
 \<and> body_reads (python (answering (Reply 204 [0x4F, 0x4B]))) = 0
 \<and> out (python (answering (Reply 204 [0x4F, 0x4B]))) = [''Request failed. Status code: 204'']
 \<and> python ((answering (Reply 204 [0x4F, 0x4B]))\<lparr>network := \<lambda>q. Reply 204 []\<rparr>)
     = python (answering (Reply 204 [0x4F, 0x4B]))"
proof -
  have h: "fst (urlopen (answering (Reply 204 [0x4F, 0x4B])) url proc0)
             = Inr \<lparr>code = 204, payload = [0x4F, 0x4B]\<rparr>"
    by (simp add: urlopen_def Let_def)
  from failure_branch_ignores_body [OF h, of "[]"] h show ?thesis
    by (simp add: str_int_def)
qed

end
